theory Spec2Isabelle
  imports Complex_Main "HOL-Library.Log_Nat"
begin

section \<open>The Stock class of the forecasting notebook\<close>

text \<open>
  The notebook's \<^verbatim>\<open>Stock\<close> class wraps one instrument's daily records: it scales the
  frame to the unit interval, cuts it into windows of \<^verbatim>\<open>numSeq\<close> consecutive rows, derives
  one indicator per window, splits windows and indicators chronologically and hands them to
  a keras model. The entries of the frame and what is computed from them are modelled as
  rationals, with exact arithmetic; a value that numpy would report as \<^verbatim>\<open>nan\<close> or
  \<^verbatim>\<open>inf\<close> is \<open>None\<close> in a \<open>rat option\<close>. The split index is the one number that
  decides which window goes where: the product it is truncated from is computed as Python
  computes it, in IEEE double precision. An exception ends the run: a method returns
  \<open>Inl\<close> of the exception, or \<open>Inr\<close> of the updated object.
\<close>

subsection \<open>Exceptions\<close>

text \<open>
  The first six are what Python, numpy and scikit-learn raise in the methods below;
  \<open>KerasError\<close> stands for any exception raised inside keras. The last four
  are the error kinds named by the specification; the notebook defines none of them.
\<close>

datatype error =
    ValueError | TypeError | IndexError | AttributeError | AssertionError | OverflowError
  | KerasError
  | InsufficientDataError | ConfigurationError | SequenceError | NotTrainedError

subsection \<open>Python and numpy primitives\<close>

subsection \<open>Python floats\<close>

text \<open>
  A Python float is an IEEE binary64 number: a finite value, which is a rational, an
  infinity or \<^verbatim>\<open>nan\<close> (signed zeros are not told apart).
\<close>

datatype pyfloat = Fin rat | PInf | NInf | NaN

text \<open>Rounding to the nearest integer, a tie to the even one.\<close>

definition round_even :: "rat \<Rightarrow> int" where
  "round_even q =
     (let f = \<lfloor>q\<rfloor>; d = q - of_int f
      in if d < 1 / 2 then f else if 1 / 2 < d then f + 1 else if even f then f else f + 1)"

text \<open>
  For a positive \<open>q\<close>, \<open>binade q\<close> is the exponent \<open>e\<close> with \<open>2\<^sup>e \<le> q < 2\<^sup>e\<^sup>+\<^sup>1\<close>,
  found from the bit lengths of numerator and denominator. A double has 53 significant
  bits and no exponent below -1022, so the doubles around \<open>q\<close> are the multiples of
  \<open>ulp q\<close>.
\<close>

definition binade :: "rat \<Rightarrow> int" where
  "binade q =
     (let k = bitlen (fst (quotient_of q)) - bitlen (snd (quotient_of q))
      in if 2 powi k \<le> q then k else k - 1)"

definition ulp :: "rat \<Rightarrow> rat" where
  "ulp q = 2 powi (max (binade \<bar>q\<bar>) (- 1022) - 52)"

text \<open>
  The double nearest to a rational (round to nearest, ties to even): what Python holds
  for a number written in the source, and what every arithmetic operation returns for its
  exact result. A result of magnitude \<open>2\<^sup>1\<^sup>0\<^sup>2\<^sup>4\<close> or more is infinite.
\<close>

definition to_double :: "rat \<Rightarrow> pyfloat" where
  "to_double q =
     (if q = 0 then Fin 0
      else let r = of_int (round_even (\<bar>q\<bar> / ulp q)) * ulp q
           in if 2 ^ 1024 \<le> r then (if 0 < q then PInf else NInf)
              else Fin (if 0 < q then r else - r))"

text \<open>\<^verbatim>\<open>x * y\<close> on floats.\<close>

definition float_mul :: "pyfloat \<Rightarrow> pyfloat \<Rightarrow> pyfloat" where
  "float_mul x y =
     (case (x, y) of
        (Fin a, Fin b) \<Rightarrow> to_double (a * b)
      | (Fin a, PInf) \<Rightarrow> (if a = 0 then NaN else if 0 < a then PInf else NInf)
      | (Fin a, NInf) \<Rightarrow> (if a = 0 then NaN else if 0 < a then NInf else PInf)
      | (PInf, Fin b) \<Rightarrow> (if b = 0 then NaN else if 0 < b then PInf else NInf)
      | (NInf, Fin b) \<Rightarrow> (if b = 0 then NaN else if 0 < b then NInf else PInf)
      | (PInf, PInf) \<Rightarrow> PInf
      | (NInf, NInf) \<Rightarrow> PInf
      | (PInf, NInf) \<Rightarrow> NInf
      | (NInf, PInf) \<Rightarrow> NInf
      | _ \<Rightarrow> NaN)"

text \<open>
  \<^verbatim>\<open>int(x)\<close> on a float truncates towards zero; it raises OverflowError for an infinity
  and ValueError for \<^verbatim>\<open>nan\<close>.
\<close>

definition py_int :: "pyfloat \<Rightarrow> error + int" where
  "py_int x =
     (case x of
        Fin q \<Rightarrow> Inr (if 0 \<le> q then \<lfloor>q\<rfloor> else \<lceil>q\<rceil>)
      | NaN \<Rightarrow> Inl ValueError
      | _ \<Rightarrow> Inl OverflowError)"

text \<open>
  \<^verbatim>\<open>n * x\<close> for an integer \<open>n\<close> and a float \<open>x\<close>: the integer is converted to the
  nearest double first, which raises OverflowError when it is too large for one.
\<close>

definition int_times_float :: "nat \<Rightarrow> pyfloat \<Rightarrow> error + pyfloat" where
  "int_times_float n x =
     (case to_double (of_nat n) of
        Fin m \<Rightarrow> Inr (float_mul (Fin m) x)
      | _ \<Rightarrow> Inl OverflowError)"

subsection \<open>Lists and arrays\<close>

text \<open>\<^verbatim>\<open>range(n)\<close>: empty for \<open>n \<le> 0\<close>.\<close>

definition py_range :: "int \<Rightarrow> int list" where
  "py_range n = map int [0..<nat n]"

text \<open>
  A slice bound is clipped into \<open>0..len\<close>; a negative bound counts from the end.
  \<^verbatim>\<open>xs[:k]\<close>, \<^verbatim>\<open>xs[k:]\<close> and \<^verbatim>\<open>xs[i:j]\<close> never raise.
\<close>

definition slice_index :: "nat \<Rightarrow> int \<Rightarrow> nat" where
  "slice_index n k = (if k < 0 then nat (max 0 (int n + k)) else min n (nat k))"

definition slice_to :: "'a list \<Rightarrow> int \<Rightarrow> 'a list" where
  "slice_to xs k = take (slice_index (length xs) k) xs"

definition slice_from :: "'a list \<Rightarrow> int \<Rightarrow> 'a list" where
  "slice_from xs k = drop (slice_index (length xs) k) xs"

definition slice :: "'a list \<Rightarrow> int \<Rightarrow> int \<Rightarrow> 'a list" where
  "slice xs i j = drop (slice_index (length xs) i) (take (slice_index (length xs) j) xs)"

text \<open>\<^verbatim>\<open>xs[i]\<close>: a negative index counts from the end; \<open>None\<close> is IndexError.\<close>

definition py_index :: "'a list \<Rightarrow> int \<Rightarrow> 'a option" where
  "py_index xs i =
     (if 0 \<le> i \<and> i < int (length xs) then Some (xs ! nat i)
      else if i < 0 \<and> - int (length xs) \<le> i then Some (xs ! nat (int (length xs) + i))
      else None)"

text \<open>\<^verbatim>\<open>X[:,c]\<close> for a two-dimensional array with more than \<open>c\<close> columns.\<close>

definition column :: "nat \<Rightarrow> 'a list list \<Rightarrow> 'a list" where
  "column c X = map (\<lambda>r. r ! c) X"

text \<open>
  \<^verbatim>\<open>X.shape[1]\<close>, read off the first row; every row of an array has this length. A frame
  without rows is rejected before its columns matter.
\<close>

definition ncols :: "'a list list \<Rightarrow> nat" where
  "ncols X = (case X of [] \<Rightarrow> 0 | r # _ \<Rightarrow> length r)"

text \<open>
  \<^verbatim>\<open>np.min\<close>, \<^verbatim>\<open>np.max\<close> of a non-empty array (their callers reject the empty one
  first), and \<^verbatim>\<open>np.mean\<close>, which is \<^verbatim>\<open>nan\<close> on an empty array.
\<close>

fun np_min :: "rat list \<Rightarrow> rat" where
  "np_min [] = 0"
| "np_min (x # xs) = fold min xs x"

fun np_max :: "rat list \<Rightarrow> rat" where
  "np_max [] = 0"
| "np_max (x # xs) = fold max xs x"

definition np_mean :: "rat list \<Rightarrow> rat option" where
  "np_mean xs = (if xs = [] then None else Some (sum_list xs / of_nat (length xs)))"

text \<open>The finite entries of an array that may hold \<^verbatim>\<open>nan\<close>.\<close>

definition finite_vals :: "rat option list \<Rightarrow> rat list" where
  "finite_vals xs = concat (map (\<lambda>x. case x of None \<Rightarrow> [] | Some v \<Rightarrow> [v]) xs)"

text \<open>\<^verbatim>\<open>np.mean\<close> of an array that may hold \<^verbatim>\<open>nan\<close>: one \<^verbatim>\<open>nan\<close> makes the mean \<^verbatim>\<open>nan\<close>.\<close>

definition np_mean_opt :: "rat option list \<Rightarrow> rat option" where
  "np_mean_opt xs = (if None \<in> set xs then None else np_mean (finite_vals xs))"

text \<open>
  \<^verbatim>\<open>"text" + x\<close> for a number \<open>x\<close>: \<^verbatim>\<open>str.__add__\<close> accepts only a \<^verbatim>\<open>str\<close>, and neither
  \<^verbatim>\<open>int\<close> nor \<^verbatim>\<open>numpy.float64\<close> can add a string on the right, so the expression raises
  TypeError whatever the number is.
\<close>

definition str_add_num :: "string \<Rightarrow> 'a \<Rightarrow> error + string" where
  "str_add_num s x = Inl TypeError"

subsection \<open>scikit-learn's MinMaxScaler and r2\_score\<close>

text \<open>
  For one feature (column) \<open>col\<close>, \<^verbatim>\<open>fit\<close> computes
  \<^verbatim>\<open>scale_ = 1 / handle_zeros(data_max - data_min)\<close> and \<^verbatim>\<open>min_ = 0 - data_min * scale_\<close>,
  where a zero range is replaced by 1; \<^verbatim>\<open>transform\<close> is \<^verbatim>\<open>x * scale_ + min_\<close> and
  \<^verbatim>\<open>inverse_transform\<close> is \<^verbatim>\<open>(x - min_) / scale_\<close>. Input validation rejects an array
  with no rows or no columns with ValueError.
\<close>

definition handle_zeros_in_scale :: "rat \<Rightarrow> rat" where
  "handle_zeros_in_scale r = (if r = 0 then 1 else r)"

definition mm_scale :: "rat list \<Rightarrow> rat" where
  "mm_scale col = 1 / handle_zeros_in_scale (np_max col - np_min col)"

definition mm_min :: "rat list \<Rightarrow> rat" where
  "mm_min col = 0 - np_min col * mm_scale col"

text \<open>\<^verbatim>\<open>MinMaxScaler(feature_range=(0,1)).fit_transform(X)\<close> on a frame without missing values.\<close>

definition fit_transform :: "rat list list \<Rightarrow> error + rat list list" where
  "fit_transform X =
     (if X = [] \<or> ncols X = 0 then Inl ValueError
      else Inr (map (\<lambda>r. map (\<lambda>c. (r ! c) * mm_scale (column c X) + mm_min (column c X))
                              [0..<length r]) X))"

text \<open>
  A scaler fitted on a column vector (an array of shape (n,1), kept as the list of its
  entries): its one \<^verbatim>\<open>scale_\<close> and \<^verbatim>\<open>min_\<close>.
\<close>

record minmax_scaler =
  sc_scale :: rat
  sc_min :: rat

definition fit_column :: "rat list \<Rightarrow> error + minmax_scaler" where
  "fit_column ys =
     (if ys = [] then Inl ValueError
      else Inr \<lparr>sc_scale = mm_scale ys, sc_min = mm_min ys\<rparr>)"

text \<open>
  The input validation of \<^verbatim>\<open>inverse_transform\<close> lets \<^verbatim>\<open>nan\<close> pass and rejects an
  infinity with ValueError, like an array without rows.
\<close>

definition inverse_transform :: "minmax_scaler \<Rightarrow> pyfloat list \<Rightarrow> error + rat option list" where
  "inverse_transform sc ys =
     (if ys = [] \<or> PInf \<in> set ys \<or> NInf \<in> set ys then Inl ValueError
      else Inr (map (\<lambda>y. case y of Fin v \<Rightarrow> Some ((v - sc_min sc) / sc_scale sc) | _ \<Rightarrow> None) ys))"

text \<open>
  \<^verbatim>\<open>MinMaxScaler().fit_transform\<close> on a column vector that may hold \<^verbatim>\<open>nan\<close>: minimum and
  maximum are taken over the finite entries (\<^verbatim>\<open>np.nanmin\<close>, \<^verbatim>\<open>np.nanmax\<close>), a \<^verbatim>\<open>nan\<close>
  stays \<^verbatim>\<open>nan\<close>, and a column of nothing but \<^verbatim>\<open>nan\<close> has \<^verbatim>\<open>nan\<close> for its scale.
\<close>

record nan_scaler =
  ns_scale :: "rat option"
  ns_min :: "rat option"

definition fit_nan_column :: "rat option list \<Rightarrow> error + nan_scaler" where
  "fit_nan_column xs =
     (if xs = [] then Inl ValueError
      else if finite_vals xs = [] then Inr \<lparr>ns_scale = None, ns_min = None\<rparr>
      else Inr \<lparr>ns_scale = Some (mm_scale (finite_vals xs)),
                ns_min = Some (mm_min (finite_vals xs))\<rparr>)"

definition transform_nan_column :: "nan_scaler \<Rightarrow> rat option list \<Rightarrow> rat option list" where
  "transform_nan_column sc xs =
     map (\<lambda>x. case (x, ns_scale sc, ns_min sc) of
                 (Some v, Some k, Some m) \<Rightarrow> Some (v * k + m)
               | _ \<Rightarrow> None) xs"

text \<open>
  \<^verbatim>\<open>r2_score(y_true, y_pred)\<close> for one output: input validation rejects \<^verbatim>\<open>nan\<close>, empty
  arrays and arrays of different lengths; a zero denominator gives 1 for a perfect
  forecast and 0 otherwise.
\<close>

definition r2_score :: "rat list \<Rightarrow> rat option list \<Rightarrow> error + rat" where
  "r2_score y_true y_pred =
     (if None \<in> set y_pred \<or> y_true = [] \<or> length y_true \<noteq> length y_pred then Inl ValueError
      else let p = finite_vals y_pred;
               mu = sum_list y_true / of_nat (length y_true);
               numerator = sum_list (map (\<lambda>(y, q). (y - q)\<^sup>2) (zip y_true p));
               denominator = sum_list (map (\<lambda>y. (y - mu)\<^sup>2) y_true)
           in Inr (if denominator \<noteq> 0 then 1 - numerator / denominator
                   else if numerator \<noteq> 0 then 0 else 1))"

subsection \<open>The keras model\<close>

text \<open>
  The network is an external collaborator. A trained model is the function it computes
  from one window and its indicator to one prediction, a float. \<^verbatim>\<open>predict\<close> maps it over
  the batch; keras rejects inputs that are not arrays or whose lengths differ, and it
  raises on a batch without samples.
\<close>

type_synonym engine = "rat list list \<Rightarrow> rat option \<Rightarrow> pyfloat"

definition keras_predict ::
  "engine \<Rightarrow> rat list list list option \<Rightarrow> rat option list option \<Rightarrow> error + pyfloat list" where
  "keras_predict eng X I =
     (case (X, I) of
        (Some xs, Some inds) \<Rightarrow>
          if length xs \<noteq> length inds \<or> xs = [] then Inl KerasError
          else Inr (map (\<lambda>(x, i). eng x i) (zip xs inds))
      | _ \<Rightarrow> Inl KerasError)"

subsection \<open>The object\<close>

text \<open>
  The constructor sets every array attribute to the function \<^verbatim>\<open>np.array\<close> and both scalers
  to the class \<^verbatim>\<open>MinMaxScaler\<close>; such a placeholder is \<open>None\<close> here. It names the
  test targets \<^verbatim>\<open>nextDaysVals_test\<close>, so \<^verbatim>\<open>nextDayVals_test\<close> does not exist before
  \<^verbatim>\<open>split_data\<close>; that is \<open>None\<close> as well. \<open>model = None\<close> is the empty \<^verbatim>\<open>keras.Model()\<close>.
  Arrays of shape (n,1) are kept as the list of their entries. \<open>data\<close> holds the values of
  the frame after \<^verbatim>\<open>dropna\<close>, one list per row. \<open>testProp\<close> is the number written for
  the test proportion; Python holds the double nearest to it.
\<close>

record stock =
  data :: "rat list list"
  name :: string
  train_samplesX :: "rat list list list option"
  test_samplesX :: "rat list list list option"
  train_samplesY :: "rat list option"
  test_samplesY :: "rat list option"
  scaler :: "minmax_scaler option"
  normalizedData :: "rat list list option"
  normDataHistory :: "rat list list list option"
  nextDayVals :: "rat list option"
  nextDayVals_test :: "rat list option"
  nextDayValsNorm :: "rat list option"
  model :: "engine option"
  indicators :: "rat option list option"
  indicatorsNorm :: "rat option list option"
  indicators_train :: "rat option list option"
  indicators_test :: "rat option list option"
  indicatorScaler :: "nan_scaler option"
  testProp :: rat
  numLag :: int
  numSeq :: int
  numEpochs :: int
  numNeurons :: int
  batchSize :: int

definition init_stock :: "string \<Rightarrow> rat list list \<Rightarrow> stock" where
  "init_stock stockName frame =
     \<lparr>data = frame, name = stockName,
      train_samplesX = None, test_samplesX = None, train_samplesY = None, test_samplesY = None,
      scaler = None, normalizedData = None, normDataHistory = None, nextDayVals = None,
      nextDayVals_test = None, nextDayValsNorm = None, model = None,
      indicators = None, indicatorsNorm = None, indicators_train = None, indicators_test = None,
      indicatorScaler = None,
      testProp = 2 / 10, numLag = 1, numSeq = 1, numEpochs = 1, numNeurons = 1, batchSize = 32\<rparr>"

definition set_globals :: "rat \<Rightarrow> int \<Rightarrow> int \<Rightarrow> int \<Rightarrow> int \<Rightarrow> stock \<Rightarrow> stock" where
  "set_globals tp bs ns nn ne s =
     s\<lparr>testProp := tp, batchSize := bs, numSeq := ns, numNeurons := nn, numEpochs := ne\<rparr>"

subsection \<open>prepare\_samples\<close>

text \<open>
  The three list comprehensions run over \<^verbatim>\<open>range(len(...) - numSeq)\<close>; the windows are
  slices and cannot fail, the targets are indexed and can. (With a negative \<^verbatim>\<open>numSeq\<close>
  the windows differ in length; the numpy of the notebook keeps such a list as an array of
  arrays.) \<^verbatim>\<open>yNormalizer.fit\<close> rejects an empty target array, which is what happens when
  no window fits into the frame. The final \<^verbatim>\<open>assert\<close> compares the numbers of windows and
  of targets. The constructor reads the file with \<^verbatim>\<open>squeeze=True\<close>, so a file with a single
  data column leaves a one-dimensional Series in \<^verbatim>\<open>self.data\<close>, which the scaler rejects
  with ValueError.
\<close>

definition windows :: "rat list list \<Rightarrow> int \<Rightarrow> rat list list list" where
  "windows nd W = map (\<lambda>i. slice nd i (i + W)) (py_range (int (length nd) - W))"

definition next_vals :: "rat list list \<Rightarrow> int \<Rightarrow> rat list option" where
  "next_vals X W =
     those (map (\<lambda>i. py_index (column 0 X) (i + W)) (py_range (int (length X) - W)))"

definition prepare_samples :: "stock \<Rightarrow> error + stock" where
  "prepare_samples s =
     (if ncols (data s) = 1 then Inl ValueError else
      case fit_transform (data s) of
        Inl e \<Rightarrow> Inl e
      | Inr nd \<Rightarrow>
          (let hist = windows nd (numSeq s) in
           case next_vals nd (numSeq s) of
             None \<Rightarrow> Inl IndexError
           | Some yn \<Rightarrow>
               (case next_vals (data s) (numSeq s) of
                  None \<Rightarrow> Inl IndexError
                | Some y \<Rightarrow>
                    (case fit_column y of
                       Inl e \<Rightarrow> Inl e
                     | Inr yNormalizer \<Rightarrow>
                         if length hist \<noteq> length yn then Inl AssertionError
                         else Inr (s\<lparr>normalizedData := Some nd,
                                     normDataHistory := Some hist,
                                     nextDayValsNorm := Some yn,
                                     nextDayVals := Some y,
                                     scaler := Some yNormalizer\<rparr>)))))"

subsection \<open>prepare\_indicators\<close>

text \<open>
  \<^verbatim>\<open>day[:,4]\<close> needs a fifth column: numpy checks the index against the shape of the
  window, which has the columns of the frame even when it has no rows. Iterating the
  placeholder \<^verbatim>\<open>np.array\<close> raises TypeError.
\<close>

definition sma :: "nat \<Rightarrow> rat list list \<Rightarrow> rat option option" where
  "sma width day =
     (if width < 5 then None
      else map_option np_mean (those (map (\<lambda>r. py_index r 4) day)))"

definition prepare_indicators :: "stock \<Rightarrow> error + stock" where
  "prepare_indicators s =
     (case normDataHistory s of
        None \<Rightarrow> Inl TypeError
      | Some hist \<Rightarrow>
          (case those (map (sma (ncols (data s))) hist) of
             None \<Rightarrow> Inl IndexError
           | Some inds \<Rightarrow>
               (case fit_nan_column inds of
                  Inl e \<Rightarrow> Inl e
                | Inr sc \<Rightarrow>
                    Inr (s\<lparr>indicators := Some inds,
                           indicatorScaler := Some sc,
                           indicatorsNorm := Some (transform_nan_column sc inds)\<rparr>))))"

subsection \<open>split\_data and split\_indicator\_data\<close>

text \<open>
  \<^verbatim>\<open>.shape\<close> of the placeholder raises AttributeError, subscripting it raises TypeError.
  The split index is \<^verbatim>\<open>shape[0] - int(shape[0] * self.testProp)\<close>: the product is a
  double, and \<^verbatim>\<open>int\<close> fails on an infinite one. Nothing else is checked.
\<close>

definition split_point :: "nat \<Rightarrow> rat \<Rightarrow> error + int" where
  "split_point M p =
     (case int_times_float M (to_double p) of
        Inl e \<Rightarrow> Inl e
      | Inr x \<Rightarrow>
          (case py_int x of
             Inl e \<Rightarrow> Inl e
           | Inr t \<Rightarrow> Inr (int M - t)))"

definition split_data :: "stock \<Rightarrow> error + stock" where
  "split_data s =
     (case normDataHistory s of
        None \<Rightarrow> Inl AttributeError
      | Some hist \<Rightarrow>
          (case split_point (length hist) (testProp s) of
             Inl e \<Rightarrow> Inl e
           | Inr split \<Rightarrow>
               (case nextDayValsNorm s of
                  None \<Rightarrow> Inl TypeError
                | Some yn \<Rightarrow>
                    (case nextDayVals s of
                       None \<Rightarrow> Inl TypeError
                     | Some y \<Rightarrow>
                         Inr (s\<lparr>train_samplesX := Some (slice_to hist split),
                                test_samplesX := Some (slice_from hist split),
                                train_samplesY := Some (slice_to yn split),
                                test_samplesY := Some (slice_from yn split),
                                nextDayVals_test := Some (slice_from y split)\<rparr>)))))"

definition split_indicator_data :: "stock \<Rightarrow> error + stock" where
  "split_indicator_data s =
     (case indicatorsNorm s of
        None \<Rightarrow> Inl AttributeError
      | Some indN \<Rightarrow>
          (case split_point (length indN) (testProp s) of
             Inl e \<Rightarrow> Inl e
           | Inr split \<Rightarrow>
               Inr (s\<lparr>indicators_train := Some (slice_to indN split),
                      indicators_test := Some (slice_from indN split)\<rparr>)))"

subsection \<open>fit\_LSTM and evaluate\_forecasts\<close>

text \<open>
  Building and fitting the network is keras's work: \<open>keras_input\<close> stands for the
  outcome of creating the first input layer of shape \<^verbatim>\<open>(numSeq, data.shape[1])\<close> (\<open>None\<close>
  when keras accepts it), \<open>keras_fit\<close> for the outcome of building, compiling and fitting
  the rest on the object's arrays. In between, \<^verbatim>\<open>self.indicators.shape[1]\<close> is read.
  The Series of a single-column file has a shape of one entry, so \<^verbatim>\<open>self.data.shape[1]\<close>
  raises IndexError before keras is called.
\<close>

record keras =
  keras_input :: "int \<Rightarrow> nat \<Rightarrow> error option"
  keras_fit :: "stock \<Rightarrow> error + engine"

definition fit_LSTM :: "keras \<Rightarrow> stock \<Rightarrow> error + stock" where
  "fit_LSTM K s =
     (if ncols (data s) = 1 then Inl IndexError else
      case keras_input K (numSeq s) (ncols (data s)) of
        Some e \<Rightarrow> Inl e
      | None \<Rightarrow>
          (case indicators s of
             None \<Rightarrow> Inl AttributeError
           | Some inds \<Rightarrow>
               if inds = [] then Inl IndexError
               else (case keras_fit K s of
                       Inl e \<Rightarrow> Inl e
                     | Inr eng \<Rightarrow> Inr (s\<lparr>model := Some eng\<rparr>))))"

text \<open>
  \<^verbatim>\<open>nextDayVals_test - predictedPrices\<close> pairs the two column vectors entry by entry;
  numpy stretches a vector of one entry to the length of the other and rejects any other
  difference in length with ValueError. The scaled error divides by the range of the test
  targets; \<^verbatim>\<open>np.max\<close> of an empty array raises ValueError, and numpy answers a division
  by zero with \<^verbatim>\<open>inf\<close> or \<^verbatim>\<open>nan\<close>, not with an exception.
\<close>

definition broadcast :: "rat list \<Rightarrow> rat option list \<Rightarrow> (rat \<times> rat option) list option" where
  "broadcast actual predicted =
     (if length actual = length predicted then Some (zip actual predicted)
      else if length actual = 1 then Some (map (\<lambda>p. (hd actual, p)) predicted)
      else if length predicted = 1 then Some (map (\<lambda>a. (a, hd predicted)) actual)
      else None)"

definition mse :: "(rat \<times> rat option) list \<Rightarrow> rat option" where
  "mse pairs = np_mean_opt (map (\<lambda>(a, p). map_option (\<lambda>q. (a - q)\<^sup>2) p) pairs)"

definition mse_scaled :: "rat list \<Rightarrow> (rat \<times> rat option) list \<Rightarrow> rat option" where
  "mse_scaled actual pairs =
     (case mse pairs of
        None \<Rightarrow> None
      | Some m \<Rightarrow>
          if np_max actual - np_min actual = 0 then None
          else Some (m / (np_max actual - np_min actual) * 100))"

text \<open>
  The predictions of the model on the test partition, in original units: the first two
  statements of \<^verbatim>\<open>evaluate_forecasts\<close>. Calling \<^verbatim>\<open>inverse_transform\<close> on the class
  \<^verbatim>\<open>MinMaxScaler\<close> instead of an instance raises TypeError.
\<close>

definition predicted_prices :: "stock \<Rightarrow> error + rat option list" where
  "predicted_prices s =
     (case model s of
        None \<Rightarrow> Inl KerasError
      | Some eng \<Rightarrow>
          (case keras_predict eng (test_samplesX s) (indicators_test s) of
             Inl e \<Rightarrow> Inl e
           | Inr predictedPrices \<Rightarrow>
               (case scaler s of
                  None \<Rightarrow> Inl TypeError
                | Some sc \<Rightarrow> inverse_transform sc predictedPrices)))"

text \<open>
  The rest of the method: both metrics are printed by adding a number to a string, and so
  is the file name of the plot. The method has no return statement: \<open>Inr ()\<close> is Python's
  \<^verbatim>\<open>None\<close>.
\<close>

definition evaluate_forecasts :: "stock \<Rightarrow> error + unit" where
  "evaluate_forecasts s =
     (case predicted_prices s of
        Inl e \<Rightarrow> Inl e
      | Inr predictedPrices \<Rightarrow>
          (case nextDayVals_test s of
             None \<Rightarrow> Inl AttributeError
           | Some actual \<Rightarrow>
               (case broadcast actual predictedPrices of
                  None \<Rightarrow> Inl ValueError
                | Some pairs \<Rightarrow>
                 if actual = [] then Inl ValueError
                 else
                 (case str_add_num ''MSE Score: '' (mse_scaled actual pairs) of
                    Inl e \<Rightarrow> Inl e
                  | Inr _ \<Rightarrow>
                      (case r2_score actual predictedPrices of
                         Inl e \<Rightarrow> Inl e
                       | Inr rSquared \<Rightarrow>
                           (case str_add_num ''R^2 Score: '' rSquared of
                              Inl e \<Rightarrow> Inl e
                            | Inr _ \<Rightarrow>
                                (case str_add_num (name s @ ''forecastplot'') (numEpochs s) of
                                   Inl e \<Rightarrow> Inl e
                                 | Inr _ \<Rightarrow> Inr ())))))))"

subsection \<open>The notebook's runs\<close>

text \<open>
  Each instrument is processed by the same sequence of calls:
  \<^verbatim>\<open>prepare_samples(); prepare_indicators(); split_data(); split_indicator_data();
  fit_LSTM(); evaluate_forecasts()\<close>. The first exception ends the cell.
\<close>

definition prepare_and_split :: "stock \<Rightarrow> error + stock" where
  "prepare_and_split s =
     (case prepare_samples s of
        Inl e \<Rightarrow> Inl e
      | Inr s1 \<Rightarrow>
          (case prepare_indicators s1 of
             Inl e \<Rightarrow> Inl e
           | Inr s2 \<Rightarrow>
               (case split_data s2 of
                  Inl e \<Rightarrow> Inl e
                | Inr s3 \<Rightarrow> split_indicator_data s3)))"

definition forecast :: "keras \<Rightarrow> stock \<Rightarrow> error + unit" where
  "forecast K s =
     (case prepare_and_split s of
        Inl e \<Rightarrow> Inl e
      | Inr s4 \<Rightarrow>
          (case fit_LSTM K s4 of
             Inl e \<Rightarrow> Inl e
           | Inr s5 \<Rightarrow> evaluate_forecasts s5))"

text \<open>
  What a run leaves behind, for reading off concrete runs: the numbers of windows, of
  training windows and of test windows.
\<close>

definition sizes :: "error + stock \<Rightarrow> (nat \<times> nat \<times> nat) option" where
  "sizes r =
     (case r of
        Inl e \<Rightarrow> None
      | Inr s \<Rightarrow>
          (case (normDataHistory s, train_samplesX s, test_samplesX s) of
             (Some hist, Some tr, Some te) \<Rightarrow> Some (length hist, length tr, length te)
           | _ \<Rightarrow> None))"

text \<open>
  A small frame of four days and five columns for concrete runs, configured as the
  notebook does with \<^verbatim>\<open>set_globals(testProp, 32, numSeq, 50, 5)\<close>, and a model that
  forecasts the indicator.
\<close>

definition demo_frame :: "rat list list" where
  "demo_frame =
     [[10, 12, 9, 11, 11], [11, 13, 10, 12, 12], [12, 15, 11, 14, 13], [14, 16, 12, 15, 16]]"

definition demo :: "rat \<Rightarrow> int \<Rightarrow> stock" where
  "demo p W = set_globals p 32 W 50 5 (init_stock ''DEMO'' demo_frame)"

text \<open>A file with the date and the closing price only.\<close>

definition close_frame :: "rat list list" where
  "close_frame = [[100], [101], [102], [103]]"

definition demo_close :: stock where
  "demo_close = set_globals (1 / 4) 32 2 50 5 (init_stock ''CLOSE'' close_frame)"

text \<open>
  A frame of eight days with windows of two days leaves six windows, enough to train on.
\<close>

definition week_frame :: "rat list list" where
  "week_frame =
     [[10, 12, 9, 11, 11], [11, 13, 10, 12, 12], [12, 15, 11, 14, 13], [14, 16, 12, 15, 16],
      [15, 17, 14, 16, 15], [16, 18, 15, 17, 18], [17, 19, 16, 18, 17], [18, 20, 17, 19, 20]]"

definition week :: "rat \<Rightarrow> stock" where
  "week p = set_globals p 32 2 50 5 (init_stock ''WEEK'' week_frame)"

text \<open>
  A stand-in for keras. It accepts every input layer. It fits with
  \<^verbatim>\<open>validation_split=.1\<close>, which sets the last tenth of the training windows aside and
  cannot train on none, so it refuses fewer than two training windows; the model it
  returns forecasts the indicator.
\<close>

definition demo_engine :: engine where
  "demo_engine window indicator = (case indicator of None \<Rightarrow> NaN | Some v \<Rightarrow> Fin v)"

definition demo_keras :: keras where
  "demo_keras =
     \<lparr>keras_input = (\<lambda>steps features. None),
      keras_fit = (\<lambda>s. case train_samplesX s of
                          None \<Rightarrow> Inl KerasError
                        | Some tr \<Rightarrow> if length tr < 2 then Inl KerasError else Inr demo_engine)\<rparr>"

subsection \<open>Min-max normalization as the specification words it\<close>

text \<open>
  The specification's glossary: a linear rescaling of a value range to the unit interval
  using the observed minimum and maximum. \<open>unit_rescale col x\<close> rescales \<open>x\<close> by the
  minimum and maximum observed in \<open>col\<close>; a constant column is only shifted.
\<close>

definition unit_rescale :: "rat list \<Rightarrow> rat \<Rightarrow> rat" where
  "unit_rescale col x =
     (x - Min (set col)) / (if Max (set col) = Min (set col) then 1 else Max (set col) - Min (set col))"

section \<open>Auxiliary facts\<close>

subsection \<open>Doubles\<close>

lemma round_even_of_int [simp]: "round_even (of_int k) = k"
  by (simp add: round_even_def)




lemma binade_bounds:
  assumes "0 < q"
  shows "2 powi (binade q) \<le> q" and "q < 2 powi (binade q + 1)"
proof -
  obtain a b where ab: "quotient_of q = (a, b)" by (cases "quotient_of q")
  have b: "0 < b" by (rule quotient_of_denom_pos [OF ab])
  have q: "q = of_int a / of_int b" by (rule quotient_of_div [OF ab])
  have a: "0 < a" using assms b by (simp add: q zero_less_divide_iff)
  define la where "la = bitlen a"
  define lb where "lb = bitlen b"
  have la1: "1 \<le> la" and lb1: "1 \<le> lb"
    using a b bitlen_eq_zero_iff [of a] bitlen_eq_zero_iff [of b] bitlen_nonneg [of a]
      bitlen_nonneg [of b] by (auto simp: la_def lb_def)
  have ba: "2 ^ nat (la - 1) \<le> a" "a < 2 ^ nat la"
    using bitlen_bounds [OF a] by (simp_all add: la_def)
  have bb: "2 ^ nat (lb - 1) \<le> b" "b < 2 ^ nat lb"
    using bitlen_bounds [OF b] by (simp_all add: lb_def)
  have ra: "(2::rat) powi (la - 1) \<le> of_int a" "of_int a < (2::rat) powi la"
  proof -
    have "(of_int (2 ^ nat (la - 1)) :: rat) \<le> of_int a" using ba(1) by (simp only: of_int_le_iff)
    then show "(2::rat) powi (la - 1) \<le> of_int a" using la1 by (simp add: power_int_def)
    have "(of_int a :: rat) < of_int (2 ^ nat la)" using ba(2) by (simp only: of_int_less_iff)
    then show "of_int a < (2::rat) powi la" using la1 by (simp add: power_int_def)
  qed
  have rb: "(2::rat) powi (lb - 1) \<le> of_int b" "of_int b < (2::rat) powi lb"
  proof -
    have "(of_int (2 ^ nat (lb - 1)) :: rat) \<le> of_int b" using bb(1) by (simp only: of_int_le_iff)
    then show "(2::rat) powi (lb - 1) \<le> of_int b" using lb1 by (simp add: power_int_def)
    have "(of_int b :: rat) < of_int (2 ^ nat lb)" using bb(2) by (simp only: of_int_less_iff)
    then show "of_int b < (2::rat) powi lb" using lb1 by (simp add: power_int_def)
  qed
  define k where "k = la - lb"
  have bpos: "(0::rat) < of_int b" using b by simp
  have up: "q < 2 powi (k + 1)"
  proof -
    have "of_int a < (2::rat) powi la" by (rule ra(2))
    also have "\<dots> = 2 powi (k + 1) * 2 powi (lb - 1)"
      by (simp add: k_def power_int_add [symmetric])
    also have "\<dots> \<le> 2 powi (k + 1) * of_int b"
      using rb(1) by (intro mult_left_mono) simp_all
    finally show ?thesis using bpos by (simp add: q pos_divide_less_eq)
  qed
  have lo: "2 powi (k - 1) < q"
  proof -
    have "(2::rat) powi (k - 1) * of_int b < 2 powi (k - 1) * 2 powi lb"
      using rb(2) by (intro mult_strict_left_mono) simp_all
    also have "\<dots> = 2 powi (la - 1)"
      by (simp add: k_def power_int_add [symmetric])
    also have "\<dots> \<le> of_int a" by (rule ra(1))
    finally show ?thesis using bpos by (simp add: q pos_less_divide_eq)
  qed
  have bin: "binade q = (if 2 powi k \<le> q then k else k - 1)"
    by (simp add: binade_def ab la_def lb_def k_def Let_def)
  show "2 powi (binade q) \<le> q" using lo by (auto simp: bin)
  show "q < 2 powi (binade q + 1)" using up by (auto simp: bin)
qed

lemma pow2_less_imp: "(2::rat) powi m < 2 powi n \<Longrightarrow> m < n"
proof (rule ccontr)
  assume a: "(2::rat) powi m < 2 powi n" and "\<not> m < n"
  then have "n \<le> m" by simp
  then have "(2::rat) powi n \<le> 2 powi m" by (intro power_int_increasing) simp_all
  with a show False by simp
qed

lemma binade_unique:
  assumes "0 < q" and "2 powi e \<le> q" and "q < 2 powi (e + 1)"
  shows "binade q = e"
proof -
  have "(2::rat) powi e < 2 powi (binade q + 1)"
    using assms(2) binade_bounds(2) [OF assms(1)] by simp
  then have 1: "e < binade q + 1" by (rule pow2_less_imp)
  have "(2::rat) powi (binade q) < 2 powi (e + 1)"
    using assms(3) binade_bounds(1) [OF assms(1)] by simp
  then have 2: "binade q < e + 1" by (rule pow2_less_imp)
  from 1 2 show ?thesis by simp
qed

lemma ulp_pos: "0 < ulp q"
  by (simp add: ulp_def)

lemma to_double_pos:
  assumes "0 < q"
  shows "to_double q =
     (if 2 ^ 1024 \<le> of_int (round_even (q / ulp q)) * ulp q then PInf
      else Fin (of_int (round_even (q / ulp q)) * ulp q))"
  using assms by (simp add: to_double_def Let_def)

lemma to_double_at:
  assumes "0 < q" and "2 powi e \<le> q" and "q < 2 powi (e + 1)" and "- 1022 \<le> e"
  shows "to_double q =
     (if (2::rat) ^ 1024 \<le> of_int (round_even (q / 2 powi (e - 52))) * 2 powi (e - 52) then PInf
      else Fin (of_int (round_even (q / 2 powi (e - 52))) * 2 powi (e - 52)))"
proof -
  have "binade q = e" by (rule binade_unique [OF assms(1-3)])
  then have "ulp q = 2 powi (e - 52)" using assms(1,4) by (simp add: ulp_def max_def)
  then show ?thesis using to_double_pos [OF assms(1)] by simp
qed

lemma to_double_exact:
  assumes q: "q = of_int m * 2 powi j" and m: "0 < m" "m < 2 ^ 53"
    and j: "- 1074 \<le> j" and top: "q < 2 ^ 1024"
  shows "to_double q = Fin q"
proof -
  have qpos: "0 < q" using m by (simp add: q)
  define E where "E = max (binade q) (- 1022)"
  have "2 powi (binade q) \<le> q" by (rule binade_bounds(1) [OF qpos])
  also have "q < of_int (2 ^ 53) * 2 powi j"
    unfolding q using m(2) by (intro mult_strict_right_mono) (simp_all only: of_int_less_iff zero_less_power_int zero_less_numeral)
  also have "\<dots> = 2 powi (j + 53)" by (simp add: power_int_add)
  finally have "binade q < j + 53" by (rule pow2_less_imp)
  then have d: "0 \<le> j - (E - 52)" using j by (simp add: E_def)
  have u: "ulp q = 2 powi (E - 52)" using qpos by (simp add: ulp_def E_def)
  have "q / ulp q = q / 2 powi (E - 52)" by (simp only: u)
  also have "\<dots> = of_int m * (2 powi j / 2 powi (E - 52))" by (simp add: q)
  also have "2 powi j / (2::rat) powi (E - 52) = 2 powi (j - (E - 52))"
    by (simp add: power_int_diff)
  also have "\<dots> = of_int (2 ^ nat (j - (E - 52)))"
    using d by (simp add: power_int_def)
  finally have "q / ulp q = of_int (m * 2 ^ nat (j - (E - 52)))" by simp
  then have "of_int (round_even (q / ulp q)) * ulp q = q / ulp q * ulp q"
    by (simp only: round_even_of_int)
  also have "\<dots> = q" using ulp_pos [of q] by simp
  finally show ?thesis using top to_double_pos [OF qpos] by simp
qed









lemma rat_floor_numeral_div [simp]: "\<lfloor>(numeral a :: rat) / numeral b\<rfloor> = numeral a div numeral b"
  using floor_divide_of_int_eq [of "numeral a" "numeral b", where ?'a = rat] by simp

lemma rat_floor_one_div [simp]: "\<lfloor>(1 :: rat) / numeral b\<rfloor> = 1 div numeral b"
  using floor_divide_of_int_eq [of 1 "numeral b", where ?'a = rat] by simp

lemma double_values:
  "to_double (1 / 4) = Fin (1 / 4)" "to_double (1 / 2) = Fin (1 / 2)"
  "to_double (1 / 8) = Fin (1 / 8)" "to_double (3 / 2) = Fin (3 / 2)"
  "to_double (3 / 4) = Fin (3 / 4)" "to_double 1 = Fin 1" "to_double 2 = Fin 2"
  "to_double 3 = Fin 3" "to_double 6 = Fin 6" "to_double 9 = Fin 9"
  using to_double_exact [of "1 / 4" 1 "- 2"] to_double_exact [of "1 / 2" 1 "- 1"]
    to_double_exact [of "1 / 8" 1 "- 3"] to_double_exact [of "3 / 2" 3 "- 1"]
    to_double_exact [of "3 / 4" 3 "- 2"] to_double_exact [of 1 1 0] to_double_exact [of 2 2 0]
    to_double_exact [of 3 3 0] to_double_exact [of 6 6 0] to_double_exact [of 9 9 0]
  by simp_all

text \<open>
  The split index on doubles, at values where rounding decides it: \<^verbatim>\<open>100 * 0.29\<close> is a
  double just below 29, \<^verbatim>\<open>20 * .15\<close> is the double 3, and \<^verbatim>\<open>2 * 1e308\<close> is infinite.
\<close>

lemma double_of_29_percent: "to_double (29 / 100) = Fin (5224175567749775 / 18014398509481984)"
  using to_double_at [of "29 / 100" "- 2"] by (simp add: round_even_def Let_def)

lemma double_100_times_29_percent: "to_double (130604389193744375 / 4503599627370496) = Fin (8162774324609023 / 281474976710656)"
  using to_double_at [of "130604389193744375 / 4503599627370496" 4] by (simp add: round_even_def Let_def)

lemma double_of_15_percent: "to_double (3 / 20) = Fin (5404319552844595 / 36028797018963968)"
  using to_double_at [of "3 / 20" "- 3"] by (simp add: round_even_def Let_def)

lemma double_20_times_15_percent: "to_double (27021597764222975 / 9007199254740992) = Fin (3)"
  using to_double_at [of "27021597764222975 / 9007199254740992" 1] by (simp add: round_even_def Let_def)


lemma double_zero: "to_double 0 = Fin 0"
  by (simp add: to_double_def)

lemma double_100_20: "to_double 100 = Fin 100" "to_double 20 = Fin 20"
  using to_double_exact [of 100 100 0] to_double_exact [of 20 20 0] by simp_all

lemmas split_point_eval = split_point_def int_times_float_def float_mul_def py_int_def
  double_values double_zero

lemma split_point_rounding:
  "split_point 100 (29 / 100) = Inr 72" "split_point 20 (15 / 100) = Inr 17"
  by (simp_all add: split_point_eval double_100_20 double_of_29_percent
      double_100_times_29_percent double_of_15_percent double_20_times_15_percent)


subsection \<open>Lists, windows and targets\<close>

lemma those_map_Some:
  "(\<And>x. x \<in> set xs \<Longrightarrow> f x = Some (g x)) \<Longrightarrow> those (map f xs) = Some (map g xs)"
  by (induction xs) auto

lemma those_length: "those xs = Some ys \<Longrightarrow> length ys = length xs"
  by (induction xs arbitrary: ys) (auto split: option.splits)

lemma length_py_range: "length (py_range n) = nat n"
  by (simp add: py_range_def)

lemma length_fit_transform: "fit_transform X = Inr nd \<Longrightarrow> length nd = length X"
  by (auto simp: fit_transform_def split: if_splits)

lemma fit_transform_ok: "0 < ncols X \<Longrightarrow> \<exists>nd. fit_transform X = Inr nd"
  by (auto simp: fit_transform_def ncols_def)

lemma slice_to_from: "slice_to xs k @ slice_from xs k = xs"
  by (simp add: slice_to_def slice_from_def)

lemma length_windows: "length (windows nd W) = nat (int (length nd) - W)"
  by (simp add: windows_def py_range_def)

lemma windows_nth:
  assumes "0 \<le> W" and "i < length nd - nat W"
  shows "windows nd W ! i = take (nat W) (drop i nd)"
proof -
  have a: "slice_index (length nd) (int i) = i"
    using assms by (simp add: slice_index_def)
  have b: "slice_index (length nd) (int i + W) = i + nat W"
    using assms by (auto simp: slice_index_def min_def nat_add_distrib)
  have "windows nd W ! i = slice nd (int i) (int i + W)"
    using assms by (simp add: windows_def py_range_def)
  also have "\<dots> = drop i (take (i + nat W) nd)"
    by (simp add: slice_def a b)
  also have "\<dots> = take (nat W) (drop i nd)"
    by (simp add: drop_take)
  finally show ?thesis .
qed

lemma next_vals_Some:
  assumes "0 \<le> W"
  shows "next_vals X W = Some (map (\<lambda>i. X ! (i + nat W) ! 0) [0..<length X - nat W])"
proof -
  have r: "py_range (int (length X) - W) = map int [0..<length X - nat W]"
  proof -
    have "nat (int (length X) - W) = length X - nat W" using assms by arith
    then show ?thesis by (simp add: py_range_def)
  qed
  have "those (map (\<lambda>i. py_index (column 0 X) (i + W)) (map int [0..<length X - nat W]))
        = those (map (\<lambda>i. py_index (column 0 X) (int i + W)) [0..<length X - nat W])"
    by (simp add: comp_def)
  also have "\<dots> = Some (map (\<lambda>i. X ! (i + nat W) ! 0) [0..<length X - nat W])"
  proof (rule those_map_Some)
    fix i assume "i \<in> set [0..<length X - nat W]"
    then have i: "i + nat W < length X" by auto
    have "nat (int i + W) = i + nat W" using assms by (simp add: nat_add_distrib)
    with i assms show "py_index (column 0 X) (int i + W) = Some (X ! (i + nat W) ! 0)"
      by (auto simp: py_index_def column_def Let_def)
  qed
  finally show ?thesis by (simp add: next_vals_def r)
qed

lemma next_vals_length: "next_vals X W = Some ys \<Longrightarrow> length ys = nat (int (length X) - W)"
  by (auto simp: next_vals_def py_range_def dest: those_length)

lemma prepare_samples_fields:
  assumes "prepare_samples s = Inr s1"
  shows "\<exists>nd yn y sc.
           fit_transform (data s) = Inr nd \<and> next_vals nd (numSeq s) = Some yn \<and>
           next_vals (data s) (numSeq s) = Some y \<and> fit_column y = Inr sc \<and>
           s1 = s\<lparr>normalizedData := Some nd, normDataHistory := Some (windows nd (numSeq s)),
                  nextDayValsNorm := Some yn, nextDayVals := Some y, scaler := Some sc\<rparr>"
  using assms
  by (auto simp: prepare_samples_def Let_def split: sum.splits option.splits if_splits)

lemma prepare_samples_lengths:
  assumes "prepare_samples s = Inr s1"
  shows "\<exists>hist yn y sc. normDataHistory s1 = Some hist \<and> nextDayValsNorm s1 = Some yn \<and>
           nextDayVals s1 = Some y \<and> scaler s1 = Some sc \<and>
           length yn = length hist \<and> length y = length hist \<and> hist \<noteq> [] \<and>
           testProp s1 = testProp s \<and> data s1 = data s \<and> model s1 = model s \<and>
           numSeq s1 = numSeq s"
proof -
  from prepare_samples_fields [OF assms] obtain nd yn y sc where
    nd: "fit_transform (data s) = Inr nd" and yn: "next_vals nd (numSeq s) = Some yn" and
    y: "next_vals (data s) (numSeq s) = Some y" and sc: "fit_column y = Inr sc" and
    s1: "s1 = s\<lparr>normalizedData := Some nd, normDataHistory := Some (windows nd (numSeq s)),
                  nextDayValsNorm := Some yn, nextDayVals := Some y, scaler := Some sc\<rparr>"
    by blast
  have l: "length nd = length (data s)" by (rule length_fit_transform [OF nd])
  have ly: "length y = nat (int (length (data s)) - numSeq s)" by (rule next_vals_length [OF y])
  have lyn: "length yn = nat (int (length (data s)) - numSeq s)"
    using next_vals_length [OF yn] by (simp add: l)
  have yne: "y \<noteq> []" using sc by (auto simp: fit_column_def split: if_splits)
  have lw: "length (windows nd (numSeq s)) = length y"
    by (simp only: length_windows l ly)
  have "windows nd (numSeq s) \<noteq> []"
    using yne lw by auto
  then show ?thesis
    using ly lyn by (simp add: s1 length_windows l)
qed

lemma prepare_indicators_fields:
  assumes "prepare_indicators s1 = Inr s2"
  shows "\<exists>hist inds sc.
           normDataHistory s1 = Some hist \<and>
           those (map (sma (ncols (data s1))) hist) = Some inds \<and>
           fit_nan_column inds = Inr sc \<and>
           s2 = s1\<lparr>indicators := Some inds, indicatorScaler := Some sc,
                   indicatorsNorm := Some (transform_nan_column sc inds)\<rparr>"
  using assms
  by (auto simp: prepare_indicators_def split: sum.splits option.splits)

lemma length_transform_nan_column: "length (transform_nan_column sc xs) = length xs"
  by (simp add: transform_nan_column_def)

subsection \<open>The split index and the four preparation steps\<close>

lemma length_slice_to: "length (slice_to xs k) = slice_index (length xs) k"
  by (simp add: slice_to_def slice_index_def)

lemma length_slice_from: "length (slice_from xs k) = length xs - slice_index (length xs) k"
  by (simp add: slice_from_def)

lemma slice_index_inside: "0 \<le> k \<Longrightarrow> k \<le> int n \<Longrightarrow> slice_index n k = nat k"
  by (auto simp: slice_index_def)







lemma split_data_fields:
  assumes "split_data s2 = Inr s3"
  shows "\<exists>hist yn y k.
           normDataHistory s2 = Some hist \<and> nextDayValsNorm s2 = Some yn \<and>
           nextDayVals s2 = Some y \<and> split_point (length hist) (testProp s2) = Inr k \<and>
           s3 = s2\<lparr>train_samplesX := Some (slice_to hist k),
                   test_samplesX := Some (slice_from hist k),
                   train_samplesY := Some (slice_to yn k),
                   test_samplesY := Some (slice_from yn k),
                   nextDayVals_test := Some (slice_from y k)\<rparr>"
  using assms
  by (auto simp: split_data_def split: sum.splits option.splits)


lemma split_indicator_data_fields:
  assumes "split_indicator_data s3 = Inr s4"
  shows "\<exists>indN k.
           indicatorsNorm s3 = Some indN \<and> split_point (length indN) (testProp s3) = Inr k \<and>
           s4 = s3\<lparr>indicators_train := Some (slice_to indN k),
                   indicators_test := Some (slice_from indN k)\<rparr>"
  using assms
  by (auto simp: split_indicator_data_def split: sum.splits option.splits)

lemma prepare_and_split_steps:
  assumes "prepare_and_split s = Inr s4"
  shows "\<exists>s1 s2 s3. prepare_samples s = Inr s1 \<and> prepare_indicators s1 = Inr s2 \<and>
           split_data s2 = Inr s3 \<and> split_indicator_data s3 = Inr s4"
  using assms by (auto simp: prepare_and_split_def split: sum.splits)

lemma prepare_and_split_shape:
  assumes "prepare_and_split s = Inr s4"
  shows "\<exists>hist y sc inds indN k.
           normDataHistory s4 = Some hist \<and> nextDayVals s4 = Some y \<and> scaler s4 = Some sc \<and>
           indicators s4 = Some inds \<and> indicatorsNorm s4 = Some indN \<and>
           hist \<noteq> [] \<and> length y = length hist \<and> length inds = length hist \<and>
           length indN = length hist \<and> testProp s4 = testProp s \<and>
           split_point (length hist) (testProp s) = Inr k \<and>
           train_samplesX s4 = Some (slice_to hist k) \<and>
           test_samplesX s4 = Some (slice_from hist k) \<and>
           nextDayVals_test s4 = Some (slice_from y k) \<and>
           indicators_train s4 = Some (slice_to indN k) \<and>
           indicators_test s4 = Some (slice_from indN k) \<and>
           model s4 = model s \<and> data s4 = data s \<and> numSeq s4 = numSeq s"
proof -
  from prepare_and_split_steps [OF assms] obtain s1 s2 s3 where
    1: "prepare_samples s = Inr s1" and 2: "prepare_indicators s1 = Inr s2" and
    3: "split_data s2 = Inr s3" and 4: "split_indicator_data s3 = Inr s4"
    by blast
  from prepare_samples_lengths [OF 1] obtain hist yn y sc where
    f1: "normDataHistory s1 = Some hist" "nextDayValsNorm s1 = Some yn"
        "nextDayVals s1 = Some y" "scaler s1 = Some sc"
        "length yn = length hist" "length y = length hist" "hist \<noteq> []"
        "testProp s1 = testProp s" "model s1 = model s" "data s1 = data s"
        "numSeq s1 = numSeq s"
    by blast
  from prepare_indicators_fields [OF 2] f1 obtain inds isc where
    inds: "those (map (sma (ncols (data s1))) hist) = Some inds" and
    s2: "s2 = s1\<lparr>indicators := Some inds, indicatorScaler := Some isc,
                 indicatorsNorm := Some (transform_nan_column isc inds)\<rparr>"
    by auto
  have li: "length inds = length hist" using those_length [OF inds] by simp
  from split_data_fields [OF 3] obtain hist' yn' y' k where
    s3: "normDataHistory s2 = Some hist'" "nextDayValsNorm s2 = Some yn'"
        "nextDayVals s2 = Some y'" "split_point (length hist') (testProp s2) = Inr k"
        "s3 = s2\<lparr>train_samplesX := Some (slice_to hist' k),
                   test_samplesX := Some (slice_from hist' k),
                   train_samplesY := Some (slice_to yn' k),
                   test_samplesY := Some (slice_from yn' k),
                   nextDayVals_test := Some (slice_from y' k)\<rparr>"
    by blast
  have eq: "hist' = hist" "y' = y" using s3(1,3) f1 by (simp_all add: s2)
  have k: "split_point (length hist) (testProp s) = Inr k"
    using s3(4) by (simp add: eq s2 f1)
  from split_indicator_data_fields [OF 4] obtain indN k' where
    s4: "indicatorsNorm s3 = Some indN" "split_point (length indN) (testProp s3) = Inr k'"
        "s4 = s3\<lparr>indicators_train := Some (slice_to indN k'),
                   indicators_test := Some (slice_from indN k')\<rparr>"
    by blast
  have indN: "indN = transform_nan_column isc inds" using s4(1) by (simp add: s3(5) s2)
  have "split_point (length indN) (testProp s3) = Inr k"
    using k by (simp add: indN length_transform_nan_column li s3(5) s2 f1)
  with s4(2) have k': "k' = k" by simp
  show ?thesis
    using f1 li eq k
    by (simp add: s4(3) k' s3(5) s2 indN length_transform_nan_column)
qed

section \<open>Evaluating concrete runs\<close>

lemmas demo_config = demo_def demo_frame_def set_globals_def init_stock_def

text \<open>Evaluation descends into the function of a \<open>map\<close> only once it is applied to an entry.\<close>

lemma map_arg_cong: "xs = ys \<Longrightarrow> map f xs = map f ys"
  by simp

lemmas samples_eval = prepare_samples_def fit_transform_def ncols_def windows_def next_vals_def
  py_range_def py_index_def column_def fit_column_def slice_def slice_index_def
  mm_scale_def mm_min_def handle_zeros_in_scale_def upt_conv_Cons Let_def

section \<open>Windowed samples\<close>

text \<open>
  Claim C2, as the code has it. For a frame of \<open>N\<close> rows with at least two columns (a
  single column is read as a Series, which the scaler rejects) and a window length
  \<open>W\<close> with \<open>0 \<le> W < N\<close>, \<^verbatim>\<open>prepare_samples\<close> succeeds and produces exactly
  \<open>N - W\<close> windows and as many targets: window \<open>i\<close> is the contiguous slice of the
  normalized series covering the rows \<open>i, \<dots>, i + W - 1\<close>, and its target is the first
  column of row \<open>i + W\<close>, of the normalized series and, in original units, of the frame.
\<close>

theorem prepare_samples_windows:
  assumes W0: "0 \<le> numSeq s"
    and WN: "numSeq s < int (length (data s))"
    and cols: "1 < ncols (data s)"
  shows "\<exists>s' nd hist yn y.
           prepare_samples s = Inr s' \<and>
           fit_transform (data s) = Inr nd \<and> length nd = length (data s) \<and>
           normalizedData s' = Some nd \<and> normDataHistory s' = Some hist \<and>
           nextDayValsNorm s' = Some yn \<and> nextDayVals s' = Some y \<and>
           length hist = length (data s) - nat (numSeq s) \<and> length yn = length hist \<and>
           length y = length hist \<and>
           (\<forall>i < length hist.
              hist ! i = take (nat (numSeq s)) (drop i nd) \<and>
              length (hist ! i) = nat (numSeq s) \<and>
              (\<forall>j < nat (numSeq s). hist ! i ! j = nd ! (i + j)) \<and>
              yn ! i = nd ! (i + nat (numSeq s)) ! 0 \<and>
              y ! i = data s ! (i + nat (numSeq s)) ! 0)"
proof -
  define W where "W = nat (numSeq s)"
  define N where "N = length (data s)"
  have WltN: "W < N" using W0 WN by (simp add: W_def N_def)
  have c0: "0 < ncols (data s)" "ncols (data s) \<noteq> 1" using cols by simp_all
  obtain nd where nd: "fit_transform (data s) = Inr nd"
    using fit_transform_ok [OF c0(1)] by blast
  have lnd: "length nd = N" using length_fit_transform [OF nd] by (simp add: N_def)
  define hist where "hist = windows nd (numSeq s)"
  define yn where "yn = map (\<lambda>i. nd ! (i + W) ! 0) [0..<N - W]"
  define y where "y = map (\<lambda>i. data s ! (i + W) ! 0) [0..<N - W]"
  have yn: "next_vals nd (numSeq s) = Some yn"
    using next_vals_Some [OF W0, of nd] by (simp add: yn_def W_def lnd)
  have y: "next_vals (data s) (numSeq s) = Some y"
    using next_vals_Some [OF W0, of "data s"] by (simp add: y_def W_def N_def)
  have yne: "y \<noteq> []" using WltN by (simp add: y_def)
  have lh: "length hist = N - W"
    using W0 by (simp add: hist_def length_windows lnd W_def nat_diff_distrib)
  have lyn: "length yn = N - W" by (simp add: yn_def)
  define s' where "s' = s\<lparr>normalizedData := Some nd, normDataHistory := Some hist,
      nextDayValsNorm := Some yn, nextDayVals := Some y,
      scaler := Some \<lparr>sc_scale = mm_scale y, sc_min = mm_min y\<rparr>\<rparr>"
  have run: "prepare_samples s = Inr s'"
    using yne lh lyn c0
    by (simp add: prepare_samples_def nd yn y fit_column_def Let_def hist_def [symmetric]
        s'_def)
  have win: "hist ! i = take W (drop i nd)" if "i < N - W" for i
    using windows_nth [OF W0, of i nd] that by (simp add: hist_def W_def lnd)
  have ly: "length y = N - W" by (simp add: y_def)
  have props: "hist ! i = take W (drop i nd) \<and> length (hist ! i) = W \<and>
               (\<forall>j < W. hist ! i ! j = nd ! (i + j)) \<and> yn ! i = nd ! (i + W) ! 0 \<and>
               y ! i = data s ! (i + W) ! 0"
    if "i < N - W" for i
    using that win [OF that] by (simp add: lnd yn_def y_def)
  show ?thesis
    using run nd lnd lh lyn ly props
    by (simp add: s'_def W_def [symmetric] N_def [symmetric])
qed

text \<open>The frame of four days with windows of two days gives two windows of two rows.\<close>

theorem prepare_samples_windows_witness:
  "0 \<le> numSeq (demo (1 / 4) 2) \<and> numSeq (demo (1 / 4) 2) < int (length (data (demo (1 / 4) 2))) \<and>
   1 < ncols (data (demo (1 / 4) 2)) \<and>
   (\<exists>s' hist yn. prepare_samples (demo (1 / 4) 2) = Inr s' \<and> normDataHistory s' = Some hist \<and>
      nextDayValsNorm s' = Some yn \<and> length hist = 2 \<and> length yn = 2 \<and>
      length (hist ! 0) = 2 \<and> length (hist ! 1) = 2)"
proof -
  have h: "0 \<le> numSeq (demo (1 / 4) 2)"
    "numSeq (demo (1 / 4) 2) < int (length (data (demo (1 / 4) 2)))"
    "1 < ncols (data (demo (1 / 4) 2))"
    by (simp_all add: demo_config ncols_def)
  have n: "length (data (demo (1 / 4) 2)) = 4" "nat (numSeq (demo (1 / 4) 2)) = 2"
    by (simp_all add: demo_config)
  from prepare_samples_windows [OF h] obtain s' hist yn where
    r: "prepare_samples (demo (1 / 4) 2) = Inr s'" "normDataHistory s' = Some hist"
       "nextDayValsNorm s' = Some yn" "length hist = 2" "length yn = length hist"
       "\<forall>i < length hist. length (hist ! i) = 2"
    unfolding n by auto
  from r(4,6) have "length (hist ! 0) = 2" "length (hist ! 1) = 2" by simp_all
  with h r show ?thesis by simp
qed

text \<open>
  Four days of closing prices alone, with windows of two days: no windows are produced,
  the run ends in ValueError.
\<close>

theorem prepare_samples_windows_counterexample:
  "numSeq demo_close = 2 \<and> length (data demo_close) = 4 \<and>
   prepare_samples demo_close = Inl ValueError"
  by (simp add: demo_close_def close_frame_def set_globals_def init_stock_def
      prepare_samples_def ncols_def)

text \<open>
  Claim C3, as the code has it. When the frame has no more rows than the window is long,
  no window fits, the array of targets is empty, and \<^verbatim>\<open>prepare_samples\<close> fails with the
  ValueError that scikit-learn's input validation raises for an array without rows (for an
  empty or one-dimensional frame, already when the first scaler is fitted). The notebook
  defines no InsufficientDataError.
\<close>

theorem prepare_samples_too_short:
  assumes "int (length (data s)) \<le> numSeq s"
  shows "prepare_samples s = Inl ValueError"
proof (cases "fit_transform (data s)")
  case (Inl e)
  then have "e = ValueError" by (auto simp: fit_transform_def split: if_splits)
  with Inl show ?thesis by (simp add: prepare_samples_def)
next
  case (Inr nd)
  have lnd: "length nd = length (data s)" by (rule length_fit_transform [OF Inr])
  have W0: "0 \<le> numSeq s" using assms by simp
  have e: "length (data s) - nat (numSeq s) = 0" using assms by simp
  have yn: "next_vals nd (numSeq s) = Some []"
    using next_vals_Some [OF W0, of nd] e by (simp add: lnd)
  have y: "next_vals (data s) (numSeq s) = Some []"
    using next_vals_Some [OF W0, of "data s"] e by simp
  show ?thesis
    by (simp add: prepare_samples_def Inr yn y fit_column_def)
qed

theorem prepare_samples_too_short_witness:
  "int (length (data (demo (1 / 4) 7))) \<le> numSeq (demo (1 / 4) 7) \<and>
   prepare_samples (demo (1 / 4) 7) = Inl ValueError"
proof -
  have h: "int (length (data (demo (1 / 4) 7))) \<le> numSeq (demo (1 / 4) 7)"
    by (simp add: demo_config)
  from prepare_samples_too_short [OF h] h show ?thesis by simp
qed

text \<open>With four days and windows of four days the run ends in ValueError.\<close>

theorem prepare_samples_too_short_counterexample:
  "int (length (data (demo (1 / 4) 4))) \<le> numSeq (demo (1 / 4) 4) \<and>
   prepare_samples (demo (1 / 4) 4) = Inl ValueError \<and>
   prepare_samples (demo (1 / 4) 4) \<noteq> Inl InsufficientDataError"
  by (simp add: demo_config samples_eval)

text \<open>
  Claim C8. \<^verbatim>\<open>prepare_samples\<close> reads only the frame and the window length and changes
  neither, so calling it again on the object it returned yields the same object:
  the same normalized series, windows, targets and scaler.
\<close>

theorem prepare_samples_idem:
  assumes "prepare_samples s = Inr s'"
  shows "prepare_samples s' = Inr s'"
  using assms
  by (auto simp: prepare_samples_def Let_def split: sum.splits option.splits if_splits)

theorem prepare_samples_idem_witness:
  "\<exists>s'. prepare_samples (demo (1 / 4) 2) = Inr s' \<and> prepare_samples s' = Inr s'"
proof -
  obtain s' where r: "prepare_samples (demo (1 / 4) 2) = Inr s'"
    by (simp add: demo_config samples_eval)
  from prepare_samples_idem [OF r] r show ?thesis by blast
qed

section \<open>The chronological split\<close>

lemmas split_eval = prepare_and_split_def prepare_indicators_def sma_def np_mean_def
  fit_nan_column_def finite_vals_def transform_nan_column_def split_data_def split_point_eval
  slice_to_def slice_from_def split_indicator_data_def sizes_def







text \<open>
  Claim C10. After \<^verbatim>\<open>prepare_samples\<close>, \<^verbatim>\<open>prepare_indicators\<close>, \<^verbatim>\<open>split_data\<close> and
  \<^verbatim>\<open>split_indicator_data\<close> have run on one object, there is exactly one indicator per
  window, both splits use the same split index, and the indicator partitions are as long
  as the window partitions on either side.
\<close>

theorem indicator_split_aligned:
  assumes "prepare_and_split s = Inr s4"
  shows "\<exists>hist inds indN tr te itr ite.
           normDataHistory s4 = Some hist \<and> indicators s4 = Some inds \<and>
           indicatorsNorm s4 = Some indN \<and>
           length inds = length hist \<and> length indN = length hist \<and>
           split_point (length indN) (testProp s4) = split_point (length hist) (testProp s4) \<and>
           train_samplesX s4 = Some tr \<and> test_samplesX s4 = Some te \<and>
           indicators_train s4 = Some itr \<and> indicators_test s4 = Some ite \<and>
           tr @ te = hist \<and> itr @ ite = indN \<and>
           length itr = length tr \<and> length ite = length te"
proof -
  from prepare_and_split_shape [OF assms] obtain hist inds indN k where
    f: "normDataHistory s4 = Some hist" "indicators s4 = Some inds" "indicatorsNorm s4 = Some indN"
       "length inds = length hist" "length indN = length hist"
       "train_samplesX s4 = Some (slice_to hist k)" "test_samplesX s4 = Some (slice_from hist k)"
       "indicators_train s4 = Some (slice_to indN k)" "indicators_test s4 = Some (slice_from indN k)"
    by (elim exE conjE)
  show ?thesis
    using f by (simp add: slice_to_from length_slice_to length_slice_from)
qed

theorem indicator_split_aligned_witness:
  "\<exists>s4. prepare_and_split (demo (1 / 2) 2) = Inr s4 \<and>
     (\<exists>hist indN tr te itr ite.
        normDataHistory s4 = Some hist \<and> indicatorsNorm s4 = Some indN \<and>
        length indN = length hist \<and>
        train_samplesX s4 = Some tr \<and> test_samplesX s4 = Some te \<and>
        indicators_train s4 = Some itr \<and> indicators_test s4 = Some ite \<and>
        length itr = length tr \<and> length ite = length te)"
proof -
  obtain s4 where s: "prepare_and_split (demo (1 / 2) 2) = Inr s4"
    by (simp add: demo_config samples_eval split_eval)
  from indicator_split_aligned [OF s] s show ?thesis by blast
qed

section \<open>Calls out of order\<close>

lemmas forecast_eval = forecast_def fit_LSTM_def evaluate_forecasts_def predicted_prices_def
  keras_predict_def inverse_transform_def broadcast_def str_add_num_def demo_engine_def
  demo_keras_def





section \<open>Evaluating the forecasts\<close>




text \<open>
  Claim C6. The method's own comment promises the mean squared error and the coefficient
  of determination. On the eight-day frame with a test proportion of one half, three
  training and three test windows and a trained model, the run computes the predictions
  and the scaled error and then raises TypeError at
  \<^verbatim>\<open>print("MSE Score: " + MSE_scaled)\<close>; \<^verbatim>\<open>r2_score\<close> is never reached and nothing is
  returned.
\<close>

theorem evaluate_forecasts_demo:
  "sizes (prepare_and_split (week (1 / 2))) = Some (6, 3, 3) \<and>
   forecast demo_keras (week (1 / 2)) = Inl TypeError"
  by (simp add: week_def week_frame_def set_globals_def init_stock_def samples_eval split_eval
      forecast_eval cong: map_arg_cong)




section \<open>What the normalizers are fitted on\<close>

lemma np_min_Min: "xs \<noteq> [] \<Longrightarrow> np_min xs = Min (set xs)"
  by (cases xs) (simp_all add: Min.set_eq_fold [symmetric])

lemma np_max_Max: "xs \<noteq> [] \<Longrightarrow> np_max xs = Max (set xs)"
  by (cases xs) (simp_all add: Max.set_eq_fold [symmetric])

lemma mm_rescale:
  assumes "xs \<noteq> []"
  shows "x * mm_scale xs + mm_min xs = unit_rescale xs x"
proof -
  define h where "h = (if Max (set xs) = Min (set xs) then 1 else Max (set xs) - Min (set xs))"
  have s: "mm_scale xs = 1 / h"
    using assms by (simp add: mm_scale_def handle_zeros_in_scale_def np_min_Min np_max_Max h_def)
  have "x * (1 / h) + (0 - Min (set xs) * (1 / h)) = (x - Min (set xs)) / h"
    by (simp add: diff_divide_distrib)
  then show ?thesis
    using assms by (simp add: mm_min_def s np_min_Min unit_rescale_def h_def)
qed

lemma fit_transform_nth:
  assumes "fit_transform X = Inr nd" and "i < length X" and "c < length (X ! i)"
  shows "nd ! i ! c = unit_rescale (column c X) (X ! i ! c)"
proof -
  have ne: "column c X \<noteq> []" using assms(2) by (auto simp: column_def)
  have "nd = map (\<lambda>r. map (\<lambda>c. (r ! c) * mm_scale (column c X) + mm_min (column c X))
                              [0..<length r]) X"
    using assms(1) by (auto simp: fit_transform_def split: if_splits)
  then have "nd ! i ! c = (X ! i ! c) * mm_scale (column c X) + mm_min (column c X)"
    using assms(2,3) by simp
  then show ?thesis by (simp add: mm_rescale [OF ne])
qed

lemma finite_vals_Nil: "finite_vals xs = [] \<longleftrightarrow> (\<forall>x \<in> set xs. x = None)"
  by (induction xs) (auto simp: finite_vals_def split: option.splits)

lemma transform_nan_rescale:
  assumes "fit_nan_column inds = Inr sc"
  shows "transform_nan_column sc inds = map (map_option (unit_rescale (finite_vals inds))) inds"
proof (cases "finite_vals inds = []")
  case True
  then have "\<forall>x \<in> set inds. x = None" by (simp add: finite_vals_Nil)
  then show ?thesis by (auto simp: transform_nan_column_def)
next
  case False
  then have sc: "sc = \<lparr>ns_scale = Some (mm_scale (finite_vals inds)),
                        ns_min = Some (mm_min (finite_vals inds))\<rparr>"
    using assms by (auto simp: fit_nan_column_def split: if_splits)
  show ?thesis
    by (auto simp: transform_nan_column_def sc mm_rescale [OF False] split: option.splits)
qed

text \<open>
  Claim C7. The scaler applied to the windowed samples is fitted on the entire frame:
  every entry of the normalized series, of which the windows are slices, is rescaled by
  the minimum and maximum of its whole column, over all rows. The indicator scaler is
  fitted on the indicators of all windows: every finite indicator is rescaled by the
  minimum and maximum over all of them. Both happen in \<^verbatim>\<open>prepare_samples\<close> and
  \<^verbatim>\<open>prepare_indicators\<close>, which neither read nor write the train and test partitions.
\<close>

theorem normalizers_fitted_on_whole_series:
  assumes "prepare_samples s = Inr s1" and "prepare_indicators s1 = Inr s2"
  shows "\<exists>nd inds.
           normalizedData s2 = Some nd \<and> length nd = length (data s) \<and>
           (\<forall>i < length (data s). \<forall>c < length (data s ! i).
              nd ! i ! c = unit_rescale (column c (data s)) (data s ! i ! c)) \<and>
           normDataHistory s2 = Some (windows nd (numSeq s)) \<and>
           indicators s2 = Some inds \<and> length inds = length (windows nd (numSeq s)) \<and>
           indicatorsNorm s2 = Some (map (map_option (unit_rescale (finite_vals inds))) inds) \<and>
           train_samplesX s2 = train_samplesX s \<and> test_samplesX s2 = test_samplesX s \<and>
           indicators_train s2 = indicators_train s \<and> indicators_test s2 = indicators_test s"
proof -
  from prepare_samples_fields [OF assms(1)] obtain nd yn y sc where
    nd: "fit_transform (data s) = Inr nd" and
    s1: "s1 = s\<lparr>normalizedData := Some nd, normDataHistory := Some (windows nd (numSeq s)),
                  nextDayValsNorm := Some yn, nextDayVals := Some y, scaler := Some sc\<rparr>"
    by blast
  from prepare_indicators_fields [OF assms(2)] obtain hist inds isc where
    h: "normDataHistory s1 = Some hist" and
    i: "those (map (sma (ncols (data s1))) hist) = Some inds" and
    f: "fit_nan_column inds = Inr isc" and
    s2: "s2 = s1\<lparr>indicators := Some inds, indicatorScaler := Some isc,
                   indicatorsNorm := Some (transform_nan_column isc inds)\<rparr>"
    by blast
  have hist: "hist = windows nd (numSeq s)" using h by (simp add: s1)
  have li: "length inds = length (windows nd (numSeq s))"
    using those_length [OF i] by (simp add: hist)
  have vals: "\<forall>i < length (data s). \<forall>c < length (data s ! i).
      nd ! i ! c = unit_rescale (column c (data s)) (data s ! i ! c)"
    using fit_transform_nth [OF nd] by blast
  show ?thesis
    using vals li length_fit_transform [OF nd]
    by (simp add: s2 s1 transform_nan_rescale [OF f])
qed

text \<open>
  On the four-day frame the second opening price 11 is rescaled by the range 10 to 14 of
  all four days, and the two indicators by their common range.
\<close>

theorem normalizers_fitted_on_whole_series_witness:
  "\<exists>s1 s2 nd.
     prepare_samples (demo (1 / 2) 2) = Inr s1 \<and> prepare_indicators s1 = Inr s2 \<and>
     normalizedData s2 = Some nd \<and>
     nd ! 1 ! 0 = unit_rescale [10, 11, 12, 14] 11 \<and>
     nd ! 3 ! 4 = unit_rescale [11, 12, 13, 16] 16 \<and>
     indicatorsNorm s2 = Some (map (map_option (unit_rescale [1 / 10, 3 / 10])) [Some (1 / 10), Some (3 / 10)])"
proof -
  obtain s1 where s1: "prepare_samples (demo (1 / 2) 2) = Inr s1"
    by (simp add: demo_config samples_eval)
  obtain s2 where s2: "prepare_indicators s1 = Inr s2"
    using s1 by (auto simp: demo_config samples_eval split_eval)
  have ind: "indicators s2 = Some [Some (1 / 10), Some (3 / 10)]"
    using s1 s2 by (auto simp: demo_config samples_eval split_eval)
  from normalizers_fitted_on_whole_series [OF s1 s2] obtain nd inds where
    r: "normalizedData s2 = Some nd"
       "\<forall>i < length (data (demo (1 / 2) 2)). \<forall>c < length (data (demo (1 / 2) 2) ! i).
          nd ! i ! c = unit_rescale (column c (data (demo (1 / 2) 2))) (data (demo (1 / 2) 2) ! i ! c)"
       "indicators s2 = Some inds"
       "indicatorsNorm s2 = Some (map (map_option (unit_rescale (finite_vals inds))) inds)"
    by (elim exE conjE)
  have a: "nd ! 1 ! 0 = unit_rescale [10, 11, 12, 14] 11"
    using r(2) [rule_format, of 1 0] by (simp add: demo_config column_def)
  have b: "nd ! 3 ! 4 = unit_rescale [11, 12, 13, 16] 16"
    using r(2) [rule_format, of 3 4] by (simp add: demo_config column_def)
  have inds: "inds = [Some (1 / 10), Some (3 / 10)]" using r(3) ind by simp
  have c: "indicatorsNorm s2 =
      Some (map (map_option (unit_rescale [1 / 10, 3 / 10])) [Some (1 / 10), Some (3 / 10)])"
    using r(4) by (simp add: inds finite_vals_def)
  from s1 s2 r(1) a b c show ?thesis by blast
qed

end
